theory Spec2Isabelle
  imports Main
begin

section \<open>Errors and indexing\<close>

text \<open>
  The exceptions that running the notebook's code can raise. \<open>AssertionError\<close> comes from
  the two \<^verbatim>\<open>assert\<close> statements of \<^verbatim>\<open>ResNetBase.__init__\<close>, \<open>IndexError\<close> from
  list and tuple subscripts, \<open>RuntimeError\<close> and \<open>ValueError\<close> from the tensor library's
  checks. \<open>OtherError\<close> stands for an exception of any other class that the library or
  the interpreter may raise, such as \<open>OverflowError\<close> or \<open>MemoryError\<close>.
\<close>

datatype error = AssertionError | IndexError | RuntimeError | ValueError | OtherError

definition and_then :: "error + 'a \<Rightarrow> ('a \<Rightarrow> error + 'b) \<Rightarrow> error + 'b" where
  "and_then r f = (case r of Inl e \<Rightarrow> Inl e | Inr v \<Rightarrow> f v)"

text \<open>
  \<^verbatim>\<open>xs[i]\<close> for the subscripts the code uses, which are never negative: the literals
  \<^verbatim>\<open>0\<close> and \<^verbatim>\<open>1\<close> and the counter of \<^verbatim>\<open>enumerate\<close>.
\<close>

definition getitem :: "'a list \<Rightarrow> nat \<Rightarrow> error + 'a" where
  "getitem xs i = (if i < length xs then Inr (xs ! i) else Inl IndexError)"

section \<open>Modules\<close>

text \<open>
  A module object is identified by its class and its constructor arguments; the learned
  weights play no part in what is verified here.
  \<open>Conv2d in_channels out_channels kernel_size stride padding\<close>, where a call of the
  source that gives no \<^verbatim>\<open>padding\<close> has the library's default 0.
\<close>

datatype layer =
    Conv2d int int int int int
  | BatchNorm2d int
  | ReLU

text \<open>
  The shortcut of a block is either a \<^verbatim>\<open>ShortcutProjection(in_channels, out_channels, stride)\<close>
  or the library's \<^verbatim>\<open>nn.Identity()\<close>.
\<close>

datatype shortcut_module =
    ShortcutProjection int int int
  | Identity

definition ShortcutProjection_conv :: "int \<Rightarrow> int \<Rightarrow> int \<Rightarrow> layer" where
  "ShortcutProjection_conv in_channels out_channels stride =
     Conv2d in_channels out_channels 1 stride 0"

definition ShortcutProjection_bn :: "int \<Rightarrow> int \<Rightarrow> int \<Rightarrow> layer" where
  "ShortcutProjection_bn in_channels out_channels stride = BatchNorm2d out_channels"

text \<open>
  \<open>ResidualBlock in_channels out_channels stride\<close> and
  \<open>BottleneckResidualBlock in_channels bottleneck_channels out_channels stride\<close>.
  The attributes \<^verbatim>\<open>self.res\<close>, \<^verbatim>\<open>self.shortcut\<close> and \<^verbatim>\<open>self.act\<close> that the two
  constructors set are functions of the constructor arguments.
\<close>

datatype block =
    ResidualBlock int int int
  | BottleneckResidualBlock int int int int

fun res :: "block \<Rightarrow> layer list" where
  "res (ResidualBlock in_channels out_channels stride) =
     [Conv2d in_channels out_channels 3 stride 1,
      BatchNorm2d out_channels,
      ReLU,
      Conv2d out_channels out_channels 3 1 1,
      BatchNorm2d out_channels]"
| "res (BottleneckResidualBlock in_channels bottleneck_channels out_channels stride) =
     [Conv2d in_channels bottleneck_channels 1 1 0,
      BatchNorm2d bottleneck_channels,
      ReLU,
      Conv2d bottleneck_channels bottleneck_channels 3 stride 1,
      BatchNorm2d bottleneck_channels,
      ReLU,
      Conv2d bottleneck_channels out_channels 1 1 0,
      BatchNorm2d out_channels]"

fun shortcut :: "block \<Rightarrow> shortcut_module" where
  "shortcut (ResidualBlock in_channels out_channels stride) =
     (if stride \<noteq> 1 \<or> in_channels \<noteq> out_channels
      then ShortcutProjection in_channels out_channels stride
      else Identity)"
| "shortcut (BottleneckResidualBlock in_channels bottleneck_channels out_channels stride) =
     (if stride \<noteq> 1 \<or> in_channels \<noteq> out_channels
      then ShortcutProjection in_channels out_channels stride
      else Identity)"

fun act :: "block \<Rightarrow> layer" where
  "act (ResidualBlock in_channels out_channels stride) = ReLU"
| "act (BottleneckResidualBlock in_channels bottleneck_channels out_channels stride) = ReLU"

text \<open>The constructor arguments of a block, read back from the object.\<close>

fun block_in_channels :: "block \<Rightarrow> int" where
  "block_in_channels (ResidualBlock in_channels out_channels stride) = in_channels"
| "block_in_channels (BottleneckResidualBlock in_channels bottleneck_channels out_channels stride) =
     in_channels"

fun block_out_channels :: "block \<Rightarrow> int" where
  "block_out_channels (ResidualBlock in_channels out_channels stride) = out_channels"
| "block_out_channels (BottleneckResidualBlock in_channels bottleneck_channels out_channels stride) =
     out_channels"

fun block_stride :: "block \<Rightarrow> int" where
  "block_stride (ResidualBlock in_channels out_channels stride) = stride"
| "block_stride (BottleneckResidualBlock in_channels bottleneck_channels out_channels stride) =
     stride"

section \<open>Constructing modules\<close>

text \<open>
  Constructing a module of the tensor library can raise: the library checks the arguments
  and allocates the weights. What it accepts belongs to the library and to the machine,
  so it is a parameter: \<open>ctor m\<close> is the exception that constructing the module \<open>m\<close>
  raises, or \<open>None\<close> when the library returns the module. \<open>new\<close> is one constructor call
  and \<open>first_raise\<close> a sequence of them, which stops at the first that raises.
\<close>

type_synonym constructor = "layer \<Rightarrow> error option"

definition new :: "constructor \<Rightarrow> layer \<Rightarrow> error + layer" where
  "new ctor m = (case ctor m of Some e \<Rightarrow> Inl e | None \<Rightarrow> Inr m)"

fun first_raise :: "constructor \<Rightarrow> layer list \<Rightarrow> error option" where
  "first_raise ctor [] = None"
| "first_raise ctor (m # ms) =
     (case ctor m of Some e \<Rightarrow> Some e | None \<Rightarrow> first_raise ctor ms)"

text \<open>
  The library modules that the constructor of a block constructs, in the order of the
  source: the layers of \<^verbatim>\<open>self.res\<close>, then the convolution and the normalisation of
  the \<^verbatim>\<open>ShortcutProjection\<close> when the shortcut is one, then \<^verbatim>\<open>self.act\<close>. The
  constructor of a block raises what the first of them raises, and returns the block when
  none does.
\<close>

fun shortcut_modules :: "shortcut_module \<Rightarrow> layer list" where
  "shortcut_modules (ShortcutProjection in_channels out_channels stride) =
     [ShortcutProjection_conv in_channels out_channels stride,
      ShortcutProjection_bn in_channels out_channels stride]"
| "shortcut_modules Identity = []"

definition block_modules :: "block \<Rightarrow> layer list" where
  "block_modules blk = res blk @ shortcut_modules (shortcut blk) @ [act blk]"

definition block_init :: "constructor \<Rightarrow> block \<Rightarrow> error + block" where
  "block_init ctor blk =
     (case first_raise ctor (block_modules blk) of Some e \<Rightarrow> Inl e | None \<Rightarrow> Inr blk)"

section \<open>Assembling the network: \<^verbatim>\<open>ResNetBase.__init__\<close>\<close>

text \<open>
  The inner loop \<^verbatim>\<open>for _ in range(n_blocks[i] - 1)\<close>, by the number of iterations that
  are left. \<^verbatim>\<open>bottlenecks[i]\<close> is read again in every iteration.
\<close>

fun inner_loop ::
  "constructor \<Rightarrow> nat \<Rightarrow> int list option \<Rightarrow> nat \<Rightarrow> int \<Rightarrow> block list \<Rightarrow> error + block list"
where
  "inner_loop ctor 0 bottlenecks i channels blocks = Inr blocks"
| "inner_loop ctor (Suc k) bottlenecks i channels blocks =
     and_then
       (case bottlenecks of
          None \<Rightarrow> block_init ctor (ResidualBlock channels channels 1)
        | Some bs \<Rightarrow>
            and_then (getitem bs i) (\<lambda>b.
              block_init ctor (BottleneckResidualBlock channels b channels 1)))
       (\<lambda>blk. inner_loop ctor k bottlenecks i channels (blocks @ [blk]))"

text \<open>
  The outer loop \<^verbatim>\<open>for i, channels in enumerate(n_channels)\<close>, over the pairs that are
  left, with the loop's two variables \<^verbatim>\<open>blocks\<close> and \<^verbatim>\<open>prev_channels\<close> as state.
  \<^verbatim>\<open>range(n)\<close> runs \<open>nat n\<close> times, that is not at all when \<open>n \<le> 0\<close>.
\<close>

fun stage_loop ::
  "constructor \<Rightarrow> int list \<Rightarrow> int list option \<Rightarrow> (nat \<times> int) list \<Rightarrow> block list \<times> int
     \<Rightarrow> error + block list \<times> int"
where
  "stage_loop ctor n_blocks bottlenecks [] (blocks, prev_channels) = Inr (blocks, prev_channels)"
| "stage_loop ctor n_blocks bottlenecks ((i, channels) # rest) (blocks, prev_channels) =
     (let stride = (if length blocks = 0 then 2 else 1) in
      and_then
        (case bottlenecks of
           None \<Rightarrow> block_init ctor (ResidualBlock prev_channels channels stride)
         | Some bs \<Rightarrow>
             and_then (getitem bs i) (\<lambda>b.
               block_init ctor (BottleneckResidualBlock prev_channels b channels stride)))
        (\<lambda>blk.
           and_then (getitem n_blocks i) (\<lambda>n.
             and_then (inner_loop ctor (nat (n - 1)) bottlenecks i channels (blocks @ [blk]))
               (\<lambda>blocks2. stage_loop ctor n_blocks bottlenecks rest (blocks2, channels)))))"

text \<open>
  The object that \<^verbatim>\<open>__init__\<close> leaves behind: the attributes \<^verbatim>\<open>self.conv\<close>,
  \<^verbatim>\<open>self.bn\<close> and \<^verbatim>\<open>self.blocks\<close>. Both assertions come first; the subscript
  \<^verbatim>\<open>n_channels[0]\<close> is the next thing evaluated, then the stem's convolution and
  normalisation are constructed, then the blocks.
\<close>

record ResNetBase =
  conv :: layer
  bn :: layer
  blocks :: "block list"

definition ResNetBase_init ::
  "constructor \<Rightarrow> int list \<Rightarrow> int list \<Rightarrow> int list option \<Rightarrow> int \<Rightarrow> int \<Rightarrow> error + ResNetBase"
where
  "ResNetBase_init ctor n_blocks n_channels bottlenecks img_channels first_kernel_size =
     (if length n_blocks \<noteq> length n_channels then Inl AssertionError
      else if \<not> (bottlenecks = None \<or> length (the bottlenecks) = length n_channels)
        then Inl AssertionError
      else
        and_then (getitem n_channels 0) (\<lambda>c0.
          and_then
            (new ctor (Conv2d img_channels c0 first_kernel_size 2 (first_kernel_size div 2)))
            (\<lambda>stem_conv.
               and_then (new ctor (BatchNorm2d c0)) (\<lambda>stem_bn.
                 and_then
                   (stage_loop ctor n_blocks bottlenecks (enumerate 0 n_channels) ([], c0))
                   (\<lambda>(blocks, prev_channels).
                      Inr \<lparr>conv = stem_conv, bn = stem_bn, blocks = blocks\<rparr>)))))"

section \<open>The forward passes\<close>

text \<open>
  The convolution, normalisation, rectification, addition and reduction of tensors belong
  to the tensor library and not to the repository. The forward passes are therefore
  written over any tensor type \<open>'t\<close>, with the library's operations as a parameter:
  \<open>module_call\<close> applies a library module to a tensor, \<open>tensor_add\<close> is \<^verbatim>\<open>x + y\<close>,
  \<open>tensor_shape\<close> is \<^verbatim>\<open>x.shape\<close>, \<open>tensor_view\<close> is \<^verbatim>\<open>x.view(...)\<close> and
  \<open>tensor_mean\<close> is \<^verbatim>\<open>x.mean(dim=...)\<close>.
\<close>

record 't torch =
  module_call :: "layer \<Rightarrow> 't \<Rightarrow> error + 't"
  tensor_add :: "'t \<Rightarrow> 't \<Rightarrow> error + 't"
  tensor_shape :: "'t \<Rightarrow> int list"
  tensor_view :: "'t \<Rightarrow> int list \<Rightarrow> error + 't"
  tensor_mean :: "'t \<Rightarrow> int \<Rightarrow> error + 't"

text \<open>\<^verbatim>\<open>nn.Sequential\<close>: the modules in order, each on the result of the one before.\<close>

fun Sequential :: "('m \<Rightarrow> 't \<Rightarrow> error + 't) \<Rightarrow> 'm list \<Rightarrow> 't \<Rightarrow> error + 't" where
  "Sequential call [] x = Inr x"
| "Sequential call (m # ms) x = and_then (call m x) (Sequential call ms)"

text \<open>
  \<^verbatim>\<open>ShortcutProjection.forward\<close> is \<^verbatim>\<open>self.bn(self.conv(x))\<close>; \<^verbatim>\<open>nn.Identity\<close>
  gives back what it is given, as the notebook says of it.
\<close>

fun shortcut_forward :: "'t torch \<Rightarrow> shortcut_module \<Rightarrow> 't \<Rightarrow> error + 't" where
  "shortcut_forward lib (ShortcutProjection in_channels out_channels stride) x =
     and_then (module_call lib (ShortcutProjection_conv in_channels out_channels stride) x)
       (module_call lib (ShortcutProjection_bn in_channels out_channels stride))"
| "shortcut_forward lib Identity x = Inr x"

text \<open>
  \<^verbatim>\<open>ResidualBlock.forward\<close> and \<^verbatim>\<open>BottleneckResidualBlock.forward\<close> have the same body:
  the shortcut first, then \<^verbatim>\<open>self.res\<close>, then \<^verbatim>\<open>self.act(x + shortcut)\<close>.
\<close>

definition block_forward :: "'t torch \<Rightarrow> block \<Rightarrow> 't \<Rightarrow> error + 't" where
  "block_forward lib blk x =
     and_then (shortcut_forward lib (shortcut blk) x) (\<lambda>sc.
       and_then (Sequential (module_call lib) (res blk) x) (\<lambda>y.
         and_then (tensor_add lib y sc) (module_call lib (act blk))))"


section \<open>The library on shapes\<close>

text \<open>
  Modelled from the spec: the tensor library is an external collaborator of the
  repository, of which only the shapes of the results matter to the properties below. This
  instance of the library computes with shapes in place of tensors, by the library's
  documented rules. A convolution of kernel size \<open>k\<close>, stride \<open>s\<close> and padding \<open>p\<close> turns a
  spatial extent \<open>n\<close> into \<open>\<lfloor>(n + 2p - k) / s\<rfloor> + 1\<close>, which for kernel 1 without
  padding is the \<open>\<lfloor>(n - 1) / s\<rfloor> + 1\<close> of the specification; it takes an input of four
  dimensions, or of three when there is no batch dimension, whose channel count is its
  \<open>in_channels\<close> and whose padded extent is at least the kernel, and it raises when one of
  its channel counts is less than 1. The normalisation takes four dimensions with its own
  channel count and keeps the shape, as the rectification does. The modules are in the
  mode that their constructors leave them in, which is training, since nothing in the
  repository calls \<^verbatim>\<open>eval()\<close>: the normalisation then raises \<open>ValueError\<close> when its input
  holds a single value per channel, that is when \<open>B * H * W = 1\<close>, and it makes this check
  before it compares the channel count. Extents are unbounded integers here; the limits
  of the machine's integers and of its memory are not part of this instance.
\<close>

definition conv_out :: "int \<Rightarrow> int \<Rightarrow> int \<Rightarrow> int \<Rightarrow> int" where
  "conv_out n kernel_size stride padding = (n + 2 * padding - kernel_size) div stride + 1"

fun Conv2d_shape :: "int \<Rightarrow> int \<Rightarrow> int \<Rightarrow> int \<Rightarrow> int \<Rightarrow> int list \<Rightarrow> error + int list" where
  "Conv2d_shape in_channels out_channels kernel_size stride padding [B, C, H, W] =
     (if C \<noteq> in_channels \<or> in_channels < 1 \<or> out_channels < 1
         \<or> kernel_size < 1 \<or> stride < 1 \<or> padding < 0
         \<or> H + 2 * padding < kernel_size \<or> W + 2 * padding < kernel_size
      then Inl RuntimeError
      else Inr [B, out_channels,
                conv_out H kernel_size stride padding,
                conv_out W kernel_size stride padding])"
| "Conv2d_shape in_channels out_channels kernel_size stride padding [C, H, W] =
     (if C \<noteq> in_channels \<or> in_channels < 1 \<or> out_channels < 1
         \<or> kernel_size < 1 \<or> stride < 1 \<or> padding < 0
         \<or> H + 2 * padding < kernel_size \<or> W + 2 * padding < kernel_size
      then Inl RuntimeError
      else Inr [out_channels,
                conv_out H kernel_size stride padding,
                conv_out W kernel_size stride padding])"
| "Conv2d_shape in_channels out_channels kernel_size stride padding s = Inl RuntimeError"

fun BatchNorm2d_shape :: "int \<Rightarrow> int list \<Rightarrow> error + int list" where
  "BatchNorm2d_shape num_features [B, C, H, W] =
     (if B * H * W = 1 then Inl ValueError
      else if C \<noteq> num_features then Inl RuntimeError
      else Inr [B, C, H, W])"
| "BatchNorm2d_shape num_features s = Inl ValueError"

fun module_shape :: "layer \<Rightarrow> int list \<Rightarrow> error + int list" where
  "module_shape (Conv2d in_channels out_channels kernel_size stride padding) s =
     Conv2d_shape in_channels out_channels kernel_size stride padding s"
| "module_shape (BatchNorm2d num_features) s = BatchNorm2d_shape num_features s"
| "module_shape ReLU s = Inr s"

text \<open>
  Addition broadcasts: the shapes are aligned at their last dimensions, and two extents
  go together when they are equal or one of them is 1.
\<close>

fun broadcast_rev :: "int list \<Rightarrow> int list \<Rightarrow> error + int list" where
  "broadcast_rev [] ys = Inr ys"
| "broadcast_rev (x # xs) [] = Inr (x # xs)"
| "broadcast_rev (x # xs) (y # ys) =
     (if x = y \<or> y = 1 then and_then (broadcast_rev xs ys) (\<lambda>r. Inr (x # r))
      else if x = 1 then and_then (broadcast_rev xs ys) (\<lambda>r. Inr (y # r))
      else Inl RuntimeError)"

definition add_shape :: "int list \<Rightarrow> int list \<Rightarrow> error + int list" where
  "add_shape a b = and_then (broadcast_rev (rev a) (rev b)) (\<lambda>r. Inr (rev r))"

text \<open>
  \<^verbatim>\<open>view\<close> keeps the number of elements. One extent of the new shape may be \<open>-1\<close>; it
  is then the quotient of the number of elements by the product of the others, which has
  to be exact and is not determined when that product is 0.
\<close>

definition view_shape :: "int list \<Rightarrow> int list \<Rightarrow> error + int list" where
  "view_shape s target =
     (let numel = prod_list s; known = prod_list (filter (\<lambda>d. d \<noteq> - 1) target) in
      if (\<exists>d \<in> set target. d < - 1) \<or> 1 < length (filter (\<lambda>d. d = - 1) target)
        then Inl RuntimeError
      else if - 1 \<in> set target then
        (if known = 0 \<or> numel mod known \<noteq> 0 then Inl RuntimeError
         else Inr (map (\<lambda>d. if d = - 1 then numel div known else d) target))
      else if known = numel then Inr target
      else Inl RuntimeError)"

text \<open>
  \<^verbatim>\<open>mean(dim=d)\<close> removes dimension \<open>d\<close>, counted from the end when \<open>d\<close> is negative.
\<close>

definition mean_shape :: "int list \<Rightarrow> int \<Rightarrow> error + int list" where
  "mean_shape s d =
     (let n = int (length s); j = (if d < 0 then n + d else d) in
      if 0 \<le> j \<and> j < n then Inr (take (nat j) s @ drop (nat j + 1) s)
      else if n = 0 \<and> (d = 0 \<or> d = - 1) then Inr []
      else Inl IndexError)"

definition torch_shapes :: "(int list) torch" where
  "torch_shapes =
     \<lparr>module_call = module_shape,
      tensor_add = add_shape,
      tensor_shape = (\<lambda>s. s),
      tensor_view = view_shape,
      tensor_mean = mean_shape\<rparr>"

section \<open>The stages as the specification describes them\<close>

text \<open>
  The specification's step 3 of the builder, stage by stage: the block variant is chosen
  by the presence of bottleneck widths; the first block of stage \<open>i\<close> goes from the width
  of the stage before (for the first stage, from the stem's width, which is the first
  stage's own) to the width of stage \<open>i\<close>, with stride 2 in the first stage and stride 1 in
  every other; \<open>block_counts[i] - 1\<close> more blocks follow at the stage's width with stride 1.
\<close>

definition stage_block :: "int list option \<Rightarrow> nat \<Rightarrow> int \<Rightarrow> int \<Rightarrow> int \<Rightarrow> block" where
  "stage_block bottleneck_widths i in_channels out_channels stride =
     (case bottleneck_widths of
        None \<Rightarrow> ResidualBlock in_channels out_channels stride
      | Some bs \<Rightarrow> BottleneckResidualBlock in_channels (bs ! i) out_channels stride)"

definition stage_first_block :: "int list \<Rightarrow> int list option \<Rightarrow> nat \<Rightarrow> block" where
  "stage_first_block channel_widths bottleneck_widths i =
     stage_block bottleneck_widths i
       (if i = 0 then channel_widths ! 0 else channel_widths ! (i - 1))
       (channel_widths ! i)
       (if i = 0 then 2 else 1)"

definition stage_blocks :: "int list \<Rightarrow> int list \<Rightarrow> int list option \<Rightarrow> nat \<Rightarrow> block list" where
  "stage_blocks block_counts channel_widths bottleneck_widths i =
     stage_first_block channel_widths bottleneck_widths i
     # replicate (nat (block_counts ! i - 1))
         (stage_block bottleneck_widths i (channel_widths ! i) (channel_widths ! i) 1)"

definition network_blocks :: "int list \<Rightarrow> int list \<Rightarrow> int list option \<Rightarrow> block list" where
  "network_blocks block_counts channel_widths bottleneck_widths =
     concat (map (stage_blocks block_counts channel_widths bottleneck_widths)
                 [0..<length channel_widths])"

text \<open>
  All the library modules that the builder constructs for a configuration, in the order
  of construction: the stem's convolution and normalisation, then the modules of every
  block.
\<close>

definition network_modules :: "int list \<Rightarrow> int list \<Rightarrow> int list option \<Rightarrow> int \<Rightarrow> int \<Rightarrow> layer list" where
  "network_modules block_counts channel_widths bottleneck_widths input_channels stem_kernel_size =
     [Conv2d input_channels (channel_widths ! 0) stem_kernel_size 2 (stem_kernel_size div 2),
      BatchNorm2d (channel_widths ! 0)]
     @ concat (map block_modules (network_blocks block_counts channel_widths bottleneck_widths))"


text \<open>
  What constructing a list of blocks raises: the first exception among all their modules.
\<close>

definition blocks_raise :: "constructor \<Rightarrow> block list \<Rightarrow> error option" where
  "blocks_raise ctor bs = first_raise ctor (concat (map block_modules bs))"

section \<open>The constructor in closed form\<close>

lemma and_then_simps [simp]:
  "and_then (Inr v) f = f v"
  "and_then (Inl e) f = Inl e"
  by (simp_all add: and_then_def)

lemma and_then_Inr_iff:
  "and_then r f = Inr z \<longleftrightarrow> (\<exists>v. r = Inr v \<and> f v = Inr z)"
  by (cases r) simp_all

lemma first_raise_append:
  "first_raise ctor (xs @ ys) =
     (case first_raise ctor xs of Some e \<Rightarrow> Some e | None \<Rightarrow> first_raise ctor ys)"
  by (induction xs) (simp_all split: option.split)

lemma first_raise_None_iff:
  "first_raise ctor ms = None \<longleftrightarrow> (\<forall>m \<in> set ms. ctor m = None)"
  by (induction ms) (auto split: option.splits)

lemma blocks_raise_simps [simp]:
  "blocks_raise ctor [] = None"
  "blocks_raise ctor (b # bs) =
     (case first_raise ctor (block_modules b) of Some e \<Rightarrow> Some e | None \<Rightarrow> blocks_raise ctor bs)"
  by (simp_all add: blocks_raise_def first_raise_append split: option.split)

lemma blocks_raise_append:
  "blocks_raise ctor (xs @ ys) =
     (case blocks_raise ctor xs of Some e \<Rightarrow> Some e | None \<Rightarrow> blocks_raise ctor ys)"
  by (induction xs) (simp_all split: option.split)

lemma block_init_eq:
  "block_init ctor blk = (case blocks_raise ctor [blk] of Some e \<Rightarrow> Inl e | None \<Rightarrow> Inr blk)"
  by (simp add: block_init_def split: option.split)

lemma stage_block_init:
  assumes "\<And>bs. bottlenecks = Some bs \<Longrightarrow> i < length bs"
  shows "(case bottlenecks of
            None \<Rightarrow> block_init ctor (ResidualBlock a b s)
          | Some bs \<Rightarrow>
              and_then (getitem bs i) (\<lambda>w. block_init ctor (BottleneckResidualBlock a w b s))) =
         block_init ctor (stage_block bottlenecks i a b s)"
  using assms by (cases bottlenecks) (simp_all add: stage_block_def getitem_def)

lemma inner_loop_replicate:
  assumes "\<And>bs. bottlenecks = Some bs \<Longrightarrow> i < length bs"
  shows "inner_loop ctor k bottlenecks i channels bl =
     (case blocks_raise ctor (replicate k (stage_block bottlenecks i channels channels 1)) of
        Some e \<Rightarrow> Inl e
      | None \<Rightarrow> Inr (bl @ replicate k (stage_block bottlenecks i channels channels 1)))"
proof (induction k arbitrary: bl)
  case 0
  then show ?case by simp
next
  case (Suc k)
  let ?B = "stage_block bottlenecks i channels channels 1"
  have unfold: "inner_loop ctor (Suc k) bottlenecks i channels bl =
      and_then (block_init ctor ?B) (\<lambda>blk. inner_loop ctor k bottlenecks i channels (bl @ [blk]))"
    by (simp only: inner_loop.simps stage_block_init [OF assms])
  show ?case
  proof (cases "first_raise ctor (block_modules ?B)")
    case None
    then show ?thesis
      by (subst unfold)
        (simp add: block_init_def Suc.IH replicate_app_Cons_same cong: option.case_cong)
  next
    case (Some e)
    then show ?thesis
      by (subst unfold) (simp add: block_init_def)
  qed
qed

lemma stage_loop_closed:
  assumes "length n_blocks = length n_channels"
    and "\<And>bs. bottlenecks = Some bs \<Longrightarrow> length bs = length n_channels"
  shows "k \<le> length n_channels \<Longrightarrow> (bl = [] \<longleftrightarrow> k = 0) \<Longrightarrow>
    prev = (if k = 0 then n_channels ! 0 else n_channels ! (k - 1)) \<Longrightarrow>
    \<exists>p. stage_loop ctor n_blocks bottlenecks (enumerate k (drop k n_channels)) (bl, prev) =
      (case blocks_raise ctor
              (concat (map (stage_blocks n_blocks n_channels bottlenecks) [k..<length n_channels])) of
         Some e \<Rightarrow> Inl e
       | None \<Rightarrow>
           Inr (bl @ concat (map (stage_blocks n_blocks n_channels bottlenecks)
                                 [k..<length n_channels]), p))"
proof (induction "length n_channels - k" arbitrary: k bl prev)
  case 0
  then show ?case by simp
next
  case (Suc m)
  let ?st = "stage_blocks n_blocks n_channels bottlenecks"
  have klt: "k < length n_channels" using Suc.hyps(2) by simp
  have dr: "drop k n_channels = n_channels ! k # drop (Suc k) n_channels"
    using klt by (simp add: Cons_nth_drop_Suc)
  have up: "[k..<length n_channels] = k # [Suc k..<length n_channels]"
    using klt by (simp add: upt_conv_Cons)
  have bsok: "\<And>bs. bottlenecks = Some bs \<Longrightarrow> k < length bs"
    using assms(2) klt by simp
  define first where "first = stage_first_block n_channels bottlenecks k"
  define extra where "extra = replicate (nat (n_blocks ! k - 1))
      (stage_block bottlenecks k (n_channels ! k) (n_channels ! k) 1)"
  have st: "?st k = first # extra"
    by (simp add: stage_blocks_def first_def extra_def)
  have first_eq: "stage_block bottlenecks k prev (n_channels ! k) (if length bl = 0 then 2 else 1) = first"
    using Suc.prems by (auto simp: first_def stage_first_block_def)
  have nb: "getitem n_blocks k = Inr (n_blocks ! k)"
    using klt assms(1) by (simp add: getitem_def)
  have step: "stage_loop ctor n_blocks bottlenecks (enumerate k (drop k n_channels)) (bl, prev) =
     (case blocks_raise ctor (?st k) of
        Some e \<Rightarrow> Inl e
      | None \<Rightarrow> stage_loop ctor n_blocks bottlenecks
          (enumerate (Suc k) (drop (Suc k) n_channels)) (bl @ ?st k, n_channels ! k))"
  proof -
    have "stage_loop ctor n_blocks bottlenecks (enumerate k (drop k n_channels)) (bl, prev) =
      and_then (block_init ctor first) (\<lambda>blk.
        and_then (getitem n_blocks k) (\<lambda>n.
          and_then (inner_loop ctor (nat (n - 1)) bottlenecks k (n_channels ! k) (bl @ [blk]))
            (\<lambda>blocks2. stage_loop ctor n_blocks bottlenecks
                (enumerate (Suc k) (drop (Suc k) n_channels)) (blocks2, n_channels ! k))))"
      by (subst dr)
        (simp only: enumerate_simps stage_loop.simps Let_def stage_block_init [OF bsok] first_eq)
    then show ?thesis
      by (cases "first_raise ctor (block_modules first)")
        (simp_all add: block_init_def nb inner_loop_replicate [OF bsok] st extra_def [symmetric]
          split: option.split)
  qed
  have "\<exists>p. stage_loop ctor n_blocks bottlenecks
       (enumerate (Suc k) (drop (Suc k) n_channels)) (bl @ ?st k, n_channels ! k) =
      (case blocks_raise ctor (concat (map ?st [Suc k..<length n_channels])) of
         Some e \<Rightarrow> Inl e
       | None \<Rightarrow> Inr ((bl @ ?st k) @ concat (map ?st [Suc k..<length n_channels]), p))"
    using Suc.hyps(2) klt
    by (intro Suc.hyps(1)) (auto simp: st)
  then obtain p where rest: "stage_loop ctor n_blocks bottlenecks
       (enumerate (Suc k) (drop (Suc k) n_channels)) (bl @ ?st k, n_channels ! k) =
      (case blocks_raise ctor (concat (map ?st [Suc k..<length n_channels])) of
         Some e \<Rightarrow> Inl e
       | None \<Rightarrow> Inr ((bl @ ?st k) @ concat (map ?st [Suc k..<length n_channels]), p))"
    by blast
  show ?case
    by (rule exI [of _ p]) (simp add: step rest up blocks_raise_append split: option.split)
qed

lemma network_modules_raise:
  "first_raise ctor (network_modules nb nc bt img k) =
     (case ctor (Conv2d img (nc ! 0) k 2 (k div 2)) of
        Some e \<Rightarrow> Some e
      | None \<Rightarrow>
         (case ctor (BatchNorm2d (nc ! 0)) of
            Some e \<Rightarrow> Some e
          | None \<Rightarrow> blocks_raise ctor (network_blocks nb nc bt)))"
  by (simp add: network_modules_def blocks_raise_def split: option.split)

lemma ResNetBase_init_eq:
  assumes len: "length n_blocks = length n_channels"
    and bs: "\<And>bs. bottlenecks = Some bs \<Longrightarrow> length bs = length n_channels"
    and ne: "n_channels \<noteq> []"
  shows "ResNetBase_init ctor n_blocks n_channels bottlenecks img_channels first_kernel_size =
     (case first_raise ctor
             (network_modules n_blocks n_channels bottlenecks img_channels first_kernel_size) of
        Some e \<Rightarrow> Inl e
      | None \<Rightarrow>
          Inr \<lparr>conv = Conv2d img_channels (n_channels ! 0) first_kernel_size 2 (first_kernel_size div 2),
               bn = BatchNorm2d (n_channels ! 0),
               blocks = network_blocks n_blocks n_channels bottlenecks\<rparr>)"
proof -
  have "\<exists>p. stage_loop ctor n_blocks bottlenecks (enumerate 0 (drop 0 n_channels)) ([], n_channels ! 0) =
      (case blocks_raise ctor
              (concat (map (stage_blocks n_blocks n_channels bottlenecks) [0..<length n_channels])) of
         Some e \<Rightarrow> Inl e
       | None \<Rightarrow> Inr ([] @ concat (map (stage_blocks n_blocks n_channels bottlenecks)
                                 [0..<length n_channels]), p))"
    by (rule stage_loop_closed [OF len bs]) simp_all
  then obtain p where loop:
    "stage_loop ctor n_blocks bottlenecks (enumerate 0 n_channels) ([], n_channels ! 0) =
      (case blocks_raise ctor (network_blocks n_blocks n_channels bottlenecks) of
         Some e \<Rightarrow> Inl e
       | None \<Rightarrow> Inr (network_blocks n_blocks n_channels bottlenecks, p))"
    by (auto simp: network_blocks_def cong: option.case_cong)
  have a2: "bottlenecks = None \<or> length (the bottlenecks) = length n_channels"
    using bs by (cases bottlenecks) auto
  show ?thesis
    unfolding ResNetBase_init_def
    using len a2 ne
    by (simp add: getitem_def new_def loop network_modules_raise split: option.split)
qed

lemma ResNetBase_init_Inr_iff:
  "ResNetBase_init ctor n_blocks n_channels bottlenecks img_channels first_kernel_size = Inr net \<longleftrightarrow>
     length n_blocks = length n_channels \<and>
     (\<forall>bs. bottlenecks = Some bs \<longrightarrow> length bs = length n_channels) \<and>
     n_channels \<noteq> [] \<and>
     first_raise ctor
       (network_modules n_blocks n_channels bottlenecks img_channels first_kernel_size) = None \<and>
     net = \<lparr>conv = Conv2d img_channels (n_channels ! 0) first_kernel_size 2 (first_kernel_size div 2),
            bn = BatchNorm2d (n_channels ! 0),
            blocks = network_blocks n_blocks n_channels bottlenecks\<rparr>"
proof (cases "length n_blocks = length n_channels \<and>
     (\<forall>bs. bottlenecks = Some bs \<longrightarrow> length bs = length n_channels) \<and> n_channels \<noteq> []")
  case True
  then show ?thesis
    using ResNetBase_init_eq [of n_blocks n_channels bottlenecks ctor img_channels first_kernel_size]
    by (auto split: option.splits)
next
  case False
  then show ?thesis
    by (cases bottlenecks) (auto simp: ResNetBase_init_def getitem_def)
qed

section \<open>Properties of the assembled network\<close>

lemma stage_block_args [simp]:
  "block_in_channels (stage_block bt i a b s) = a"
  "block_out_channels (stage_block bt i a b s) = b"
  "block_stride (stage_block bt i a b s) = s"
  by (simp_all add: stage_block_def split: option.split)

lemma shortcut_stage_block:
  "shortcut (stage_block bt i a b s) =
     (if s \<noteq> 1 \<or> a \<noteq> b then ShortcutProjection a b s else Identity)"
  by (simp add: stage_block_def split: option.split)

lemma shortcut_by_args:
  "shortcut blk =
     (if block_stride blk \<noteq> 1 \<or> block_in_channels blk \<noteq> block_out_channels blk
      then ShortcutProjection (block_in_channels blk) (block_out_channels blk) (block_stride blk)
      else Identity)"
  by (cases blk) simp_all

lemma length_stage_blocks:
  "int (length (stage_blocks nb nc bt i)) = max 1 (nb ! i)"
  by (simp add: stage_blocks_def)

lemma int_sum_list: "int (sum_list xs) = sum_list (map int xs)"
  by (induction xs) simp_all

lemma length_network_blocks:
  assumes "length nb = length nc"
  shows "int (length (network_blocks nb nc bt)) = sum_list (map (max 1) nb)"
proof -
  have "int (length (network_blocks nb nc bt)) =
        sum_list (map (\<lambda>i. int (length (stage_blocks nb nc bt i))) [0..<length nb])"
    by (simp add: network_blocks_def length_concat int_sum_list comp_def assms)
  also have "\<dots> = sum_list (map (\<lambda>i. max 1 (nb ! i)) [0..<length nb])"
    by (simp only: length_stage_blocks)
  also have "map (\<lambda>i. max 1 (nb ! i)) [0..<length nb] = map (max 1) (map (\<lambda>i. nb ! i) [0..<length nb])"
    by simp
  also have "map (\<lambda>i. nb ! i) [0..<length nb] = nb"
    by (rule map_nth)
  finally show ?thesis .
qed

lemma network_blocks_Cons:
  assumes "nc \<noteq> []"
  shows "network_blocks nb nc bt =
     stage_first_block nc bt 0
     # (replicate (nat (nb ! 0 - 1)) (stage_block bt 0 (nc ! 0) (nc ! 0) 1)
        @ concat (map (stage_blocks nb nc bt) [1..<length nc]))"
proof -
  have "[0..<length nc] = 0 # [1..<length nc]"
    using assms by (simp add: upt_conv_Cons)
  then show ?thesis
    by (simp add: network_blocks_def stage_blocks_def)
qed

lemma stage_blocks_stride:
  assumes "b \<in> set (stage_blocks nb nc bt i)" and "0 < i"
  shows "block_stride b = 1"
  using assms by (auto simp: stage_blocks_def stage_first_block_def)

text \<open>
  Claim C1. In a network that \<^verbatim>\<open>ResNetBase\<close> assembles, the list of blocks is the stages
  in order; in every stage the blocks after the first have stride 1, and the first block
  has stride 2 in the first stage and stride 1 in every later stage. So the first block
  constructed overall has stride 2 and every other block of the network has stride 1. The
  constructor decides the stride by \<^verbatim>\<open>len(blocks) == 0\<close>, which holds at the first
  stage only, since every stage appends at least one block.
\<close>
theorem stride_two_only_at_first_block:
  assumes "ResNetBase_init ctor n_blocks n_channels bottlenecks img_channels first_kernel_size = Inr net"
  shows "blocks net = concat (map (stage_blocks n_blocks n_channels bottlenecks) [0..<length n_channels])
     \<and> (\<forall>i < length n_channels. \<exists>first extra.
           stage_blocks n_blocks n_channels bottlenecks i = first # extra
           \<and> block_stride first = (if i = 0 then 2 else 1)
           \<and> (\<forall>b \<in> set extra. block_stride b = 1))
     \<and> (\<exists>first rest. blocks net = first # rest \<and> block_stride first = 2
           \<and> (\<forall>b \<in> set rest. block_stride b = 1))"
proof -
  have net: "blocks net = network_blocks n_blocks n_channels bottlenecks" and ne: "n_channels \<noteq> []"
    using assms by (simp_all add: ResNetBase_init_Inr_iff)
  have a: "blocks net = concat (map (stage_blocks n_blocks n_channels bottlenecks) [0..<length n_channels])"
    by (simp add: net network_blocks_def)
  have b: "\<forall>i < length n_channels. \<exists>first extra.
           stage_blocks n_blocks n_channels bottlenecks i = first # extra
           \<and> block_stride first = (if i = 0 then 2 else 1)
           \<and> (\<forall>b \<in> set extra. block_stride b = 1)"
    by (simp add: stage_blocks_def stage_first_block_def)
  have "\<forall>b \<in> set (replicate (nat (n_blocks ! 0 - 1)) (stage_block bottlenecks 0 (n_channels ! 0) (n_channels ! 0) 1)
        @ concat (map (stage_blocks n_blocks n_channels bottlenecks) [1..<length n_channels])).
        block_stride b = 1"
    by (auto dest: stage_blocks_stride)
  then have c: "\<exists>first rest. blocks net = first # rest \<and> block_stride first = 2
           \<and> (\<forall>b \<in> set rest. block_stride b = 1)"
    unfolding net network_blocks_Cons [OF ne]
    by (intro exI conjI) (rule refl, simp add: stage_first_block_def, assumption)
  show ?thesis using a b c by blast
qed

theorem stride_two_only_at_first_block_witness:
  "ResNetBase_init (\<lambda>m. None) [2, 1, 3] [64, 64, 128] None 3 7 =
     Inr \<lparr>conv = Conv2d 3 64 7 2 3, bn = BatchNorm2d 64,
          blocks = [ResidualBlock 64 64 2, ResidualBlock 64 64 1,
                    ResidualBlock 64 64 1,
                    ResidualBlock 64 128 1, ResidualBlock 128 128 1, ResidualBlock 128 128 1]\<rparr>
   \<and> (\<exists>first rest.
         blocks \<lparr>conv = Conv2d 3 64 7 2 3, bn = BatchNorm2d 64,
          blocks = [ResidualBlock 64 64 2, ResidualBlock 64 64 1,
                    ResidualBlock 64 64 1,
                    ResidualBlock 64 128 1, ResidualBlock 128 128 1, ResidualBlock 128 128 1]\<rparr>
           = first # rest
         \<and> block_stride first = 2 \<and> (\<forall>b \<in> set rest. block_stride b = 1))"
proof -
  have init: "ResNetBase_init (\<lambda>m. None) [2, 1, 3] [64, 64, 128] None 3 7 =
     Inr \<lparr>conv = Conv2d 3 64 7 2 3, bn = BatchNorm2d 64,
          blocks = [ResidualBlock 64 64 2, ResidualBlock 64 64 1,
                    ResidualBlock 64 64 1,
                    ResidualBlock 64 128 1, ResidualBlock 128 128 1, ResidualBlock 128 128 1]\<rparr>"
    by code_simp
  from stride_two_only_at_first_block [OF init] show ?thesis
    using init by blast
qed

text \<open>
  Claim C3 at the empty configuration: two empty lists have equal lengths and all their
  entries are positive, both assertions pass, and the stem's \<^verbatim>\<open>n_channels[0]\<close> raises
  \<open>IndexError\<close>, so that no network is constructed, even with a library whose constructors
  raise nothing.
\<close>
theorem build_fails_without_stages:
  "ResNetBase_init (\<lambda>m. None) [] [] None 3 7 = Inl IndexError"
  by (simp add: ResNetBase_init_def getitem_def)

lemma sum_list_max_positive:
  "\<forall>n \<in> set nb. 0 < n \<Longrightarrow> sum_list (map (max 1) nb) = sum_list (nb :: int list)"
  by (induction nb) auto

text \<open>
  Claim C3, amended. For non-empty lists of equal length with positive block counts (and
  bottleneck widths absent or of the same length), when the library's constructors raise
  for none of the modules that the builder constructs, the construction succeeds, the
  number of blocks is \<open>sum(n_blocks)\<close>, and the blocks are the stages in order: stage \<open>i\<close>
  is one first block from the width of the stage before (for the first stage, its own
  width) to \<open>n_channels[i]\<close>, followed by \<open>n_blocks[i] - 1\<close> blocks whose input and output
  widths are both \<open>n_channels[i]\<close>. The modules are the stem's convolution and
  normalisation and those of every block, as \<open>network_modules\<close> lists them.
\<close>
theorem build_succeeds_with_sum_blocks:
  assumes "n_channels \<noteq> []"
    and "length n_blocks = length n_channels"
    and "bottlenecks = None \<or> length (the bottlenecks) = length n_channels"
    and "\<forall>n \<in> set n_blocks. 0 < n"
    and "\<forall>m \<in> set (network_modules n_blocks n_channels bottlenecks img_channels first_kernel_size).
           ctor m = None"
  shows "\<exists>net. ResNetBase_init ctor n_blocks n_channels bottlenecks img_channels first_kernel_size = Inr net
     \<and> int (length (blocks net)) = sum_list n_blocks
     \<and> blocks net = concat (map (stage_blocks n_blocks n_channels bottlenecks) [0..<length n_channels])
     \<and> (\<forall>i < length n_channels. \<exists>first extra.
           stage_blocks n_blocks n_channels bottlenecks i = first # extra
           \<and> block_in_channels first = (if i = 0 then n_channels ! 0 else n_channels ! (i - 1))
           \<and> block_out_channels first = n_channels ! i
           \<and> int (length extra) = n_blocks ! i - 1
           \<and> (\<forall>b \<in> set extra.
                 block_in_channels b = n_channels ! i \<and> block_out_channels b = n_channels ! i))"
proof -
  define net where "net =
     \<lparr>conv = Conv2d img_channels (n_channels ! 0) first_kernel_size 2 (first_kernel_size div 2),
      bn = BatchNorm2d (n_channels ! 0),
      blocks = network_blocks n_blocks n_channels bottlenecks\<rparr>"
  have bs: "\<forall>bs. bottlenecks = Some bs \<longrightarrow> length bs = length n_channels"
    using assms(3) by auto
  have init: "ResNetBase_init ctor n_blocks n_channels bottlenecks img_channels first_kernel_size = Inr net"
    using assms(1,2,5) bs by (simp add: ResNetBase_init_Inr_iff net_def first_raise_None_iff)
  have len: "int (length (blocks net)) = sum_list n_blocks"
    using length_network_blocks [OF assms(2)] sum_list_max_positive [OF assms(4)]
    by (simp add: net_def)
  have cat: "blocks net =
      concat (map (stage_blocks n_blocks n_channels bottlenecks) [0..<length n_channels])"
    by (simp add: net_def network_blocks_def)
  have stage: "\<exists>first extra.
           stage_blocks n_blocks n_channels bottlenecks i = first # extra
           \<and> block_in_channels first = (if i = 0 then n_channels ! 0 else n_channels ! (i - 1))
           \<and> block_out_channels first = n_channels ! i
           \<and> int (length extra) = n_blocks ! i - 1
           \<and> (\<forall>b \<in> set extra.
                 block_in_channels b = n_channels ! i \<and> block_out_channels b = n_channels ! i)"
    if "i < length n_channels" for i
  proof -
    have "n_blocks ! i \<in> set n_blocks" using that assms(2) by simp
    then have "0 < n_blocks ! i" using assms(4) by blast
    then show ?thesis
      by (simp add: stage_blocks_def stage_first_block_def)
  qed
  show ?thesis using init len cat stage by blast
qed

theorem build_succeeds_with_sum_blocks_witness:
  "\<exists>net. ResNetBase_init (\<lambda>m. None) [2, 3] [64, 128] (Some [16, 32]) 3 7 = Inr net
     \<and> int (length (blocks net)) = 5
     \<and> blocks net =
         [BottleneckResidualBlock 64 16 64 2, BottleneckResidualBlock 64 16 64 1,
          BottleneckResidualBlock 64 32 128 1, BottleneckResidualBlock 128 32 128 1,
          BottleneckResidualBlock 128 32 128 1]"
proof -
  have h1: "[64, 128 :: int] \<noteq> []" by simp
  have h2: "length [2, 3 :: int] = length [64, 128 :: int]" by simp
  have h3: "Some [16, 32 :: int] = None \<or> length (the (Some [16, 32 :: int])) = length [64, 128 :: int]"
    by simp
  have h4: "\<forall>n \<in> set [2, 3 :: int]. 0 < n" by simp
  have h5: "\<forall>m \<in> set (network_modules [2, 3] [64, 128] (Some [16, 32]) 3 7).
      (\<lambda>m. None :: error option) m = None" by simp
  obtain net where init: "ResNetBase_init (\<lambda>m. None) [2, 3] [64, 128] (Some [16, 32]) 3 7 = Inr net"
    and len: "int (length (blocks net)) = sum_list [2, 3]"
    and cat: "blocks net =
      concat (map (stage_blocks [2, 3] [64, 128] (Some [16, 32])) [0..<length [64, 128 :: int]])"
    using build_succeeds_with_sum_blocks [OF h1 h2 h3 h4 h5] by blast
  have "concat (map (stage_blocks [2, 3] [64, 128] (Some [16, 32])) [0..<length [64, 128 :: int]]) =
     [BottleneckResidualBlock 64 16 64 2, BottleneckResidualBlock 64 16 64 1,
          BottleneckResidualBlock 64 32 128 1, BottleneckResidualBlock 128 32 128 1,
          BottleneckResidualBlock 128 32 128 1]"
    by code_simp
  with init len cat show ?thesis by simp
qed

text \<open>
  Claim C4. When \<^verbatim>\<open>n_blocks\<close> and \<^verbatim>\<open>n_channels\<close> differ in length, or
  \<^verbatim>\<open>bottlenecks\<close> is given with a length other than that of \<^verbatim>\<open>n_channels\<close>, the
  constructor raises and produces no network. The exception is the \<open>AssertionError\<close> of the
  two \<^verbatim>\<open>assert\<close> statements, which come before anything is built, whatever the
  library's constructors would do; it is the error that the specification names
  \<open>ConfigurationError\<close>.
\<close>
theorem mismatched_lengths_raise:
  assumes "length n_blocks \<noteq> length n_channels
     \<or> (\<exists>bs. bottlenecks = Some bs \<and> length bs \<noteq> length n_channels)"
  shows "ResNetBase_init ctor n_blocks n_channels bottlenecks img_channels first_kernel_size =
     Inl AssertionError"
  using assms by (auto simp: ResNetBase_init_def)

theorem mismatched_lengths_raise_witness:
  "ResNetBase_init (\<lambda>m. None) [2, 2] [64, 128, 256] None 3 7 = Inl AssertionError
   \<and> ResNetBase_init (\<lambda>m. Some RuntimeError) [2, 2] [64, 128] (Some [16]) 3 7 =
       Inl AssertionError"
proof -
  have h1: "length [2, 2 :: int] \<noteq> length [64, 128, 256 :: int]
     \<or> (\<exists>bs. (None :: int list option) = Some bs \<and> length bs \<noteq> length [64, 128, 256 :: int])"
    by simp
  have h2: "length [2, 2 :: int] \<noteq> length [64, 128 :: int]
     \<or> (\<exists>bs. Some [16 :: int] = Some bs \<and> length bs \<noteq> length [64, 128 :: int])"
    by simp
  show ?thesis
    using mismatched_lengths_raise [OF h1] mismatched_lengths_raise [OF h2] by blast
qed

text \<open>
  Claim C9. A stage whose block count is 0 still has exactly one block, its first block:
  stage \<open>i\<close> has \<open>max(1, n_blocks[i])\<close> blocks whatever the count, and the network has
  the sum of \<open>max(1, n_blocks[i])\<close> over the stages.
\<close>
theorem zero_count_stage_has_one_block:
  assumes "ResNetBase_init ctor n_blocks n_channels bottlenecks img_channels first_kernel_size = Inr net"
  shows "blocks net = concat (map (stage_blocks n_blocks n_channels bottlenecks) [0..<length n_blocks])
     \<and> (\<forall>i < length n_blocks. int (length (stage_blocks n_blocks n_channels bottlenecks i)) = max 1 (n_blocks ! i))
     \<and> (\<forall>i < length n_blocks. n_blocks ! i = 0 \<longrightarrow>
           stage_blocks n_blocks n_channels bottlenecks i = [stage_first_block n_channels bottlenecks i])
     \<and> int (length (blocks net)) = sum_list (map (max 1) n_blocks)"
proof -
  have net: "blocks net = network_blocks n_blocks n_channels bottlenecks"
    and len: "length n_blocks = length n_channels"
    using assms by (simp_all add: ResNetBase_init_Inr_iff)
  show ?thesis
    using length_network_blocks [OF len, of bottlenecks]
    by (simp add: net len network_blocks_def length_stage_blocks) (simp add: stage_blocks_def)
qed

theorem zero_count_stage_has_one_block_witness:
  "ResNetBase_init (\<lambda>m. None) [0, 2] [64, 128] None 3 7 =
     Inr \<lparr>conv = Conv2d 3 64 7 2 3, bn = BatchNorm2d 64,
          blocks = [ResidualBlock 64 64 2, ResidualBlock 64 128 1, ResidualBlock 128 128 1]\<rparr>
   \<and> int (length (blocks \<lparr>conv = Conv2d 3 64 7 2 3, bn = BatchNorm2d 64,
          blocks = [ResidualBlock 64 64 2, ResidualBlock 64 128 1, ResidualBlock 128 128 1]\<rparr>)) =
       sum_list (map (max 1) [0, 2])
   \<and> sum_list (map (max 1) [0, 2 :: int]) = 3 \<and> sum_list [0, 2 :: int] = 2"
proof -
  have init: "ResNetBase_init (\<lambda>m. None) [0, 2] [64, 128] None 3 7 =
     Inr \<lparr>conv = Conv2d 3 64 7 2 3, bn = BatchNorm2d 64,
          blocks = [ResidualBlock 64 64 2, ResidualBlock 64 128 1, ResidualBlock 128 128 1]\<rparr>"
    by code_simp
  from zero_count_stage_has_one_block [OF init] show ?thesis
    using init by simp
qed

text \<open>
  Claim C10. In a stage after the first whose width is that of the stage before, the first
  block has stride 1 and equal input and output widths, and every block of the stage has
  the identity as its shortcut. A block of the network whose shortcut is not the identity
  is the first block of its stage, and that stage is the first stage or one whose width
  differs from the width of the stage before.
\<close>
theorem projection_only_where_shape_changes:
  assumes "ResNetBase_init ctor n_blocks n_channels bottlenecks img_channels first_kernel_size = Inr net"
  shows "blocks net = concat (map (stage_blocks n_blocks n_channels bottlenecks) [0..<length n_channels])
     \<and> (\<forall>i < length n_channels. 0 < i \<and> n_channels ! i = n_channels ! (i - 1) \<longrightarrow>
           block_stride (hd (stage_blocks n_blocks n_channels bottlenecks i)) = 1
           \<and> block_in_channels (hd (stage_blocks n_blocks n_channels bottlenecks i)) =
               block_out_channels (hd (stage_blocks n_blocks n_channels bottlenecks i))
           \<and> (\<forall>b \<in> set (stage_blocks n_blocks n_channels bottlenecks i). shortcut b = Identity))
     \<and> (\<forall>i < length n_channels. \<forall>j < length (stage_blocks n_blocks n_channels bottlenecks i).
           shortcut (stage_blocks n_blocks n_channels bottlenecks i ! j) \<noteq> Identity \<longrightarrow>
           j = 0 \<and> (i = 0 \<or> n_channels ! i \<noteq> n_channels ! (i - 1)))"
proof -
  have net: "blocks net = network_blocks n_blocks n_channels bottlenecks"
    using assms by (simp add: ResNetBase_init_Inr_iff)
  have a: "blocks net = concat (map (stage_blocks n_blocks n_channels bottlenecks) [0..<length n_channels])"
    by (simp add: net network_blocks_def)
  have b: "block_stride (hd (stage_blocks n_blocks n_channels bottlenecks i)) = 1
           \<and> block_in_channels (hd (stage_blocks n_blocks n_channels bottlenecks i)) =
               block_out_channels (hd (stage_blocks n_blocks n_channels bottlenecks i))
           \<and> (\<forall>b \<in> set (stage_blocks n_blocks n_channels bottlenecks i). shortcut b = Identity)"
    if "0 < i" "n_channels ! i = n_channels ! (i - 1)" for i
    using that by (auto simp: stage_blocks_def stage_first_block_def shortcut_stage_block)
  have c: "j = 0 \<and> (i = 0 \<or> n_channels ! i \<noteq> n_channels ! (i - 1))"
    if "j < length (stage_blocks n_blocks n_channels bottlenecks i)"
      "shortcut (stage_blocks n_blocks n_channels bottlenecks i ! j) \<noteq> Identity" for i j
    using that
    by (cases j) (auto simp: stage_blocks_def stage_first_block_def shortcut_stage_block split: if_splits)
  show ?thesis using a b c by blast
qed

theorem projection_only_where_shape_changes_witness:
  "ResNetBase_init (\<lambda>m. None) [2, 2, 2] [64, 64, 128] None 3 7 =
     Inr \<lparr>conv = Conv2d 3 64 7 2 3, bn = BatchNorm2d 64,
          blocks = [ResidualBlock 64 64 2, ResidualBlock 64 64 1,
                    ResidualBlock 64 64 1, ResidualBlock 64 64 1,
                    ResidualBlock 64 128 1, ResidualBlock 128 128 1]\<rparr>
   \<and> list_all (\<lambda>b. shortcut b = Identity) (stage_blocks [2, 2, 2] [64, 64, 128] None 1)
   \<and> map shortcut [ResidualBlock 64 64 2, ResidualBlock 64 64 1,
                    ResidualBlock 64 64 1, ResidualBlock 64 64 1,
                    ResidualBlock 64 128 1, ResidualBlock 128 128 1] =
       [ShortcutProjection 64 64 2, Identity, Identity, Identity,
        ShortcutProjection 64 128 1, Identity]"
proof -
  have init: "ResNetBase_init (\<lambda>m. None) [2, 2, 2] [64, 64, 128] None 3 7 =
     Inr \<lparr>conv = Conv2d 3 64 7 2 3, bn = BatchNorm2d 64,
          blocks = [ResidualBlock 64 64 2, ResidualBlock 64 64 1,
                    ResidualBlock 64 64 1, ResidualBlock 64 64 1,
                    ResidualBlock 64 128 1, ResidualBlock 128 128 1]\<rparr>"
    by code_simp
  have stages: "\<forall>i < length [64, 64, 128 :: int].
      0 < i \<and> [64, 64, 128 :: int] ! i = [64, 64, 128] ! (i - 1) \<longrightarrow>
      (\<forall>b \<in> set (stage_blocks [2, 2, 2] [64, 64, 128] None i). shortcut b = Identity)"
    using projection_only_where_shape_changes [OF init] by blast
  have "\<forall>b \<in> set (stage_blocks [2, 2, 2] [64, 64, 128] None 1). shortcut b = Identity"
    using stages [rule_format, of 1] by simp
  then have "list_all (\<lambda>b. shortcut b = Identity) (stage_blocks [2, 2, 2] [64, 64, 128] None 1)"
    by (simp only: list_all_iff)
  then show ?thesis using init by simp
qed

section \<open>Shapes through the forward passes\<close>

lemma torch_shapes_simps:
  "module_call torch_shapes = module_shape"
  "tensor_add torch_shapes = add_shape"
  "tensor_shape torch_shapes = (\<lambda>s. s)"
  "tensor_view torch_shapes = view_shape"
  "tensor_mean torch_shapes = mean_shape"
  by (simp_all add: torch_shapes_def)

lemma broadcast_rev_same: "broadcast_rev xs xs = Inr xs"
  by (induction xs) simp_all

lemma add_shape_same: "add_shape s s = Inr s"
  by (simp add: add_shape_def broadcast_rev_same)

lemma BatchNorm2d_shape_Inr:
  assumes "BatchNorm2d_shape n y = Inr z"
  shows "\<exists>B H W. y = [B, n, H, W] \<and> z = [B, n, H, W] \<and> B * H * W \<noteq> 1"
  using assms
  by (cases "(n, y)" rule: BatchNorm2d_shape.cases) (auto split: if_splits)

lemma Conv2d_shape_Inr:
  assumes "Conv2d_shape ic oc k s p x = Inr [B, C, H', W']"
  shows "\<exists>H W. x = [B, ic, H, W] \<and> C = oc \<and> H' = conv_out H k s p \<and> W' = conv_out W k s p
     \<and> 1 \<le> ic \<and> 1 \<le> oc \<and> 1 \<le> s"
  using assms
  by (cases "(ic, oc, k, s, p, x)" rule: Conv2d_shape.cases) (auto split: if_splits)

lemma conv_bn_Inr:
  assumes "module_shape (Conv2d ic oc k s p) x = Inr y"
    and "module_shape (BatchNorm2d n) y = Inr z"
  shows "\<exists>B H W. x = [B, ic, H, W] \<and> n = oc \<and> y = z
     \<and> z = [B, oc, conv_out H k s p, conv_out W k s p] \<and> 1 \<le> ic \<and> 1 \<le> oc \<and> 1 \<le> s"
proof -
  obtain B H' W' where y: "y = [B, n, H', W']" and z: "z = [B, n, H', W']"
    using BatchNorm2d_shape_Inr [of n y z] assms(2) by auto
  from assms(1) have "Conv2d_shape ic oc k s p x = Inr [B, n, H', W']"
    by (simp add: y)
  from Conv2d_shape_Inr [OF this] show ?thesis
    using y z by auto
qed

lemma shortcut_projection_Inr:
  assumes "shortcut_forward torch_shapes (ShortcutProjection ic oc s) x = Inr z"
  shows "\<exists>B H W. x = [B, ic, H, W] \<and> z = [B, oc, (H - 1) div s + 1, (W - 1) div s + 1]"
proof -
  obtain y where c: "module_shape (Conv2d ic oc 1 s 0) x = Inr y"
    and b: "module_shape (BatchNorm2d oc) y = Inr z"
    using assms
    by (auto simp: and_then_Inr_iff torch_shapes_simps
        ShortcutProjection_conv_def ShortcutProjection_bn_def)
  from conv_bn_Inr [OF c b] show ?thesis
    by (auto simp: conv_out_def)
qed

lemma res_Inr:
  assumes "Sequential (module_call torch_shapes) (res blk) x = Inr z"
  shows "\<exists>B H W. x = [B, block_in_channels blk, H, W]
     \<and> z = [B, block_out_channels blk,
            (H - 1) div block_stride blk + 1, (W - 1) div block_stride blk + 1]"
proof (cases blk)
  case (ResidualBlock ic oc s)
  from assms obtain y1 y2 y3 where
    c1: "module_shape (Conv2d ic oc 3 s 1) x = Inr y1"
    and b1: "module_shape (BatchNorm2d oc) y1 = Inr y2"
    and c2: "module_shape (Conv2d oc oc 3 1 1) y2 = Inr y3"
    and b2: "module_shape (BatchNorm2d oc) y3 = Inr z"
    by (auto simp: ResidualBlock and_then_Inr_iff torch_shapes_simps)
  from conv_bn_Inr [OF c1 b1] obtain B H W where
    x: "x = [B, ic, H, W]" and y2: "y2 = [B, oc, conv_out H 3 s 1, conv_out W 3 s 1]"
    by auto
  from conv_bn_Inr [OF c2 b2] y2 have
    "z = [B, oc, conv_out (conv_out H 3 s 1) 3 1 1, conv_out (conv_out W 3 s 1) 3 1 1]"
    by auto
  then show ?thesis
    using x by (simp add: ResidualBlock conv_out_def)
next
  case (BottleneckResidualBlock ic bc oc s)
  from assms obtain y1 y2 y3 y4 y5 y6 where
    c1: "module_shape (Conv2d ic bc 1 1 0) x = Inr y1"
    and b1: "module_shape (BatchNorm2d bc) y1 = Inr y2"
    and c2: "module_shape (Conv2d bc bc 3 s 1) y2 = Inr y3"
    and b2: "module_shape (BatchNorm2d bc) y3 = Inr y4"
    and c3: "module_shape (Conv2d bc oc 1 1 0) y4 = Inr y5"
    and b3: "module_shape (BatchNorm2d oc) y5 = Inr z"
    by (auto simp: BottleneckResidualBlock and_then_Inr_iff torch_shapes_simps)
  from conv_bn_Inr [OF c1 b1] obtain B H W where
    x: "x = [B, ic, H, W]" and y2: "y2 = [B, bc, conv_out H 1 1 0, conv_out W 1 1 0]"
    by auto
  from conv_bn_Inr [OF c2 b2] y2 have
    y4: "y4 = [B, bc, conv_out (conv_out H 1 1 0) 3 s 1, conv_out (conv_out W 1 1 0) 3 s 1]"
    by auto
  from conv_bn_Inr [OF c3 b3] y4 have
    "z = [B, oc, conv_out (conv_out (conv_out H 1 1 0) 3 s 1) 1 1 0,
                 conv_out (conv_out (conv_out W 1 1 0) 3 s 1) 1 1 0]"
    by auto
  then show ?thesis
    using x by (simp add: BottleneckResidualBlock conv_out_def)
qed

lemma shortcut_Inr:
  assumes "shortcut_forward torch_shapes (shortcut blk) x = Inr sc"
    and "x = [B, block_in_channels blk, H, W]"
  shows "sc = [B, block_out_channels blk,
               (H - 1) div block_stride blk + 1, (W - 1) div block_stride blk + 1]"
proof (cases "shortcut blk")
  case (ShortcutProjection ic oc s)
  then have "ic = block_in_channels blk" "oc = block_out_channels blk" "s = block_stride blk"
    by (simp_all add: shortcut_by_args split: if_splits)
  then show ?thesis
    using shortcut_projection_Inr [of ic oc s x sc] assms ShortcutProjection by auto
next
  case Identity
  then have "block_stride blk = 1" "block_in_channels blk = block_out_channels blk"
    by (simp_all add: shortcut_by_args split: if_splits)
  then show ?thesis using assms Identity by simp
qed

lemma block_forward_Inr:
  assumes "block_forward torch_shapes blk x = Inr z"
  shows "\<exists>B H W. x = [B, block_in_channels blk, H, W]
     \<and> z = [B, block_out_channels blk,
            (H - 1) div block_stride blk + 1, (W - 1) div block_stride blk + 1]"
proof -
  have act: "act blk = ReLU" by (cases blk) simp_all
  from assms obtain sc y where
    sc: "shortcut_forward torch_shapes (shortcut blk) x = Inr sc"
    and y: "Sequential (module_call torch_shapes) (res blk) x = Inr y"
    and add: "add_shape y sc = Inr z"
    by (auto simp: block_forward_def and_then_Inr_iff torch_shapes_simps act)
  from res_Inr [OF y] obtain B H W where
    x: "x = [B, block_in_channels blk, H, W]"
    and y': "y = [B, block_out_channels blk,
              (H - 1) div block_stride blk + 1, (W - 1) div block_stride blk + 1]"
    by auto
  have "sc = y" using shortcut_Inr [OF sc x] y' by simp
  then have "z = y" using add by (simp add: add_shape_same)
  then show ?thesis using x y' by auto
qed












text \<open>
  Claim C6. For a block of either class constructed with \<open>in_channels = out_channels\<close> and
  \<open>stride = 1\<close>, the shortcut is \<^verbatim>\<open>nn.Identity\<close> and the shortcut path returns its input
  itself, for every tensor of every tensor type and whatever the library's operations do.
\<close>
theorem identity_shortcut_returns_input:
  assumes "block_in_channels blk = block_out_channels blk" and "block_stride blk = 1"
  shows "shortcut blk = Identity \<and> shortcut_forward lib (shortcut blk) x = Inr x"
  using assms by (simp add: shortcut_by_args)

theorem identity_shortcut_returns_input_witness:
  "shortcut (BottleneckResidualBlock 256 64 256 1) = Identity
   \<and> shortcut_forward torch_shapes (shortcut (BottleneckResidualBlock 256 64 256 1)) [2, 256, 14, 14] =
       Inr [2, 256, 14, 14]
   \<and> shortcut_forward torch_shapes (shortcut (ResidualBlock 64 64 1)) [3, 5, 7] = Inr [3, 5, 7]"
proof -
  have a: "block_in_channels (BottleneckResidualBlock 256 64 256 1) =
      block_out_channels (BottleneckResidualBlock 256 64 256 1)"
    and b: "block_stride (BottleneckResidualBlock 256 64 256 1) = 1" by simp_all
  have c: "block_in_channels (ResidualBlock 64 64 1) = block_out_channels (ResidualBlock 64 64 1)"
    and d: "block_stride (ResidualBlock 64 64 1) = 1" by simp_all
  show ?thesis
    using identity_shortcut_returns_input [OF a b, of torch_shapes "[2, 256, 14, 14]"]
      identity_shortcut_returns_input [OF c d, of torch_shapes "[3, 5, 7]"]
    by blast
qed

text \<open>
  Claim C7. The forward pass of a \<^verbatim>\<open>BottleneckResidualBlock\<close> computes the shortcut of
  the input and, on the transformed path, applies in this order the convolution of kernel
  size 1 and stride 1 from \<open>in_channels\<close> to \<open>bottleneck_channels\<close>, the normalisation, the
  rectification, the convolution of kernel size 3 with the block's stride and padding 1
  within \<open>bottleneck_channels\<close>, the normalisation, the rectification, the convolution of
  kernel size 1 and stride 1 from \<open>bottleneck_channels\<close> to \<open>out_channels\<close> and the
  normalisation; it then adds the shortcut and rectifies. Whenever it returns, its output
  has \<open>out_channels\<close> channels, whatever \<open>bottleneck_channels\<close> is.
\<close>
theorem bottleneck_forward_sequence:
  "block_forward lib (BottleneckResidualBlock in_channels bottleneck_channels out_channels stride) x =
       and_then (shortcut_forward lib
          (shortcut (BottleneckResidualBlock in_channels bottleneck_channels out_channels stride)) x) (\<lambda>sc.
       and_then (module_call lib (Conv2d in_channels bottleneck_channels 1 1 0) x) (\<lambda>x1.
       and_then (module_call lib (BatchNorm2d bottleneck_channels) x1) (\<lambda>x2.
       and_then (module_call lib ReLU x2) (\<lambda>x3.
       and_then (module_call lib (Conv2d bottleneck_channels bottleneck_channels 3 stride 1) x3) (\<lambda>x4.
       and_then (module_call lib (BatchNorm2d bottleneck_channels) x4) (\<lambda>x5.
       and_then (module_call lib ReLU x5) (\<lambda>x6.
       and_then (module_call lib (Conv2d bottleneck_channels out_channels 1 1 0) x6) (\<lambda>x7.
       and_then (module_call lib (BatchNorm2d out_channels) x7) (\<lambda>y.
       and_then (tensor_add lib y sc) (module_call lib ReLU))))))))))
   \<and> (\<forall>xs z. block_forward torch_shapes
                (BottleneckResidualBlock in_channels bottleneck_channels out_channels stride) xs
              = Inr z \<longrightarrow>
          (\<exists>B H W. xs = [B, in_channels, H, W]
             \<and> z = [B, out_channels, (H - 1) div stride + 1, (W - 1) div stride + 1]))"
proof (intro conjI allI impI)
  show "block_forward lib (BottleneckResidualBlock in_channels bottleneck_channels out_channels stride) x =
       and_then (shortcut_forward lib
          (shortcut (BottleneckResidualBlock in_channels bottleneck_channels out_channels stride)) x) (\<lambda>sc.
       and_then (module_call lib (Conv2d in_channels bottleneck_channels 1 1 0) x) (\<lambda>x1.
       and_then (module_call lib (BatchNorm2d bottleneck_channels) x1) (\<lambda>x2.
       and_then (module_call lib ReLU x2) (\<lambda>x3.
       and_then (module_call lib (Conv2d bottleneck_channels bottleneck_channels 3 stride 1) x3) (\<lambda>x4.
       and_then (module_call lib (BatchNorm2d bottleneck_channels) x4) (\<lambda>x5.
       and_then (module_call lib ReLU x5) (\<lambda>x6.
       and_then (module_call lib (Conv2d bottleneck_channels out_channels 1 1 0) x6) (\<lambda>x7.
       and_then (module_call lib (BatchNorm2d out_channels) x7) (\<lambda>y.
       and_then (tensor_add lib y sc) (module_call lib ReLU))))))))))"
    unfolding block_forward_def res.simps act.simps Sequential.simps
    by (simp add: and_then_def split: sum.splits)
next
  fix xs z
  assume "block_forward torch_shapes
      (BottleneckResidualBlock in_channels bottleneck_channels out_channels stride) xs = Inr z"
  from block_forward_Inr [OF this]
  show "\<exists>B H W. xs = [B, in_channels, H, W]
      \<and> z = [B, out_channels, (H - 1) div stride + 1, (W - 1) div stride + 1]"
    by simp
qed

theorem bottleneck_forward_sequence_witness:
  "block_forward torch_shapes (BottleneckResidualBlock 64 16 256 2) [1, 64, 56, 56] =
     Inr [1, 256, 28, 28]
   \<and> (\<exists>B H W. [1, 64, 56, 56 :: int] = [B, 64, H, W]
        \<and> [1, 256, 28, 28 :: int] = [B, 256, (H - 1) div 2 + 1, (W - 1) div 2 + 1])"
proof -
  have ev: "block_forward torch_shapes (BottleneckResidualBlock 64 16 256 2) [1, 64, 56, 56] =
     Inr [1, 256, 28, 28]"
    by (simp add: block_forward_def torch_shapes_simps ShortcutProjection_conv_def
        ShortcutProjection_bn_def conv_out_def add_shape_same)
  have "\<forall>xs z. block_forward torch_shapes (BottleneckResidualBlock 64 16 256 2) xs = Inr z \<longrightarrow>
          (\<exists>B H W. xs = [B, 64, H, W] \<and> z = [B, 256, (H - 1) div 2 + 1, (W - 1) div 2 + 1])"
    using bottleneck_forward_sequence [of torch_shapes 64 16 256 2 "[]"] by blast
  with ev show ?thesis by blast
qed




end
